theory Spec2Isabelle
  imports Main "HOL-Library.Word" "HOL-Library.Sublist"
begin

section \<open>Hierarchical names\<close>

text \<open>
  A hierarchical name is the anonymous name, or a prefix extended by a string or by a
  numeral (\<^verbatim>\<open>name_kind { ANONYMOUS, STRING, NUMERAL }\<close> in \<^verbatim>\<open>util/name.h\<close>;
  the compiled Lean side builds the numeral case with \<^verbatim>\<open>lean_name_mk_numeral\<close> from a
  prefix and an unbounded natural number).
\<close>

datatype name = Anonymous | Str name string | Num name nat

text \<open>\<^verbatim>\<open>name::get_prefix\<close>: the anonymous name is its own prefix.\<close>

fun get_prefix :: "name \<Rightarrow> name" where
  "get_prefix Anonymous = Anonymous"
| "get_prefix (Str p s) = p"
| "get_prefix (Num p k) = p"

definition is_anonymous :: "name \<Rightarrow> bool" where
  "is_anonymous n = (n = Anonymous)"

text \<open>\<^verbatim>\<open>is_atomic() { return is_anonymous() || kind(get_prefix(raw())) == ANONYMOUS; }\<close>\<close>

definition is_atomic :: "name \<Rightarrow> bool" where
  "is_atomic n = (is_anonymous n \<or> get_prefix n = Anonymous)"

section \<open>The core execution context (\<^verbatim>\<open>Lean/CoreM.c\<close>)\<close>

subsection \<open>Data\<close>

text \<open>
  Option values and option maps. \<^verbatim>\<open>DataValue\<close> has the constructor tags
  0 (string), 1 (boolean), 2 (name), 3 (natural number), 4 (integer); an option map is a
  key-value list.
\<close>

datatype data_value =
  ofString string | ofBool bool | ofName name | ofNat nat | ofInt int

type_synonym options = "(name \<times> data_value) list"

text \<open>
  Syntax trees (tags 0 to 3: missing, node with kind and arguments, atom with its text,
  identifier with its raw text, its name and its pre-resolved names). The source position
  information carried by atoms and identifiers is opaque to the code modelled here; it is
  kept as an optional position.
\<close>

type_synonym source_info = "nat option"

datatype Syntax =
  Syntax_missing
| Syntax_node name "Syntax list"
| Syntax_atom source_info string
| Syntax_ident source_info string name "(name \<times> string list) list"

text \<open>
  Of the formatting documents only the text leaf (tag 2) is built by the code; of the
  message data the constructors \<^verbatim>\<open>ofFormat\<close> (tag 0), \<^verbatim>\<open>ofSyntax\<close> (tag 1) and the
  binary composition are.
\<close>

datatype format = Format_text string

datatype message_data =
  ofFormat format
| ofSyntax Syntax
| compose message_data message_data

text \<open>
  The exception sum as \<^verbatim>\<open>Exception_toMessageData\<close> and its constructors' call sites
  lay it out: tag 0 holds one field, the native I/O error; tag 1 holds two fields, the
  kernel's exception (field 0) and the options in force (field 1, read with
  \<^verbatim>\<open>getOptions\<close> where the exception is built); tag 2 holds two fields, a syntax
  reference (field 0) and the message (field 1). The I/O error type and the kernel's
  exception type are the collaborators' and stay type parameters.
\<close>

datatype ('ioe, 'kex) Exception =
  IoFailure 'ioe
| KernelFailure 'kex options
| ElaborationFailure Syntax message_data

text \<open>
  The immutable context (constructor with four fields: 0 options, 1 current recursion
  depth, 2 maximal recursion depth, 3 syntax reference) and the mutable state held in
  the reference cell (three fields: 0 environment, 1 name generator, 2 trace state).
\<close>

record Context =
  ctx_options :: options
  currRecDepth :: nat
  maxRecDepth :: nat
  ctx_ref :: Syntax

record NameGenerator =
  namePrefix :: name
  idx :: nat

record TraceState =
  ts_enabled :: bool
  traces :: "message_data list"

record 'env State =
  env :: 'env
  ngen :: NameGenerator
  traceState :: TraceState

text \<open>
  An action takes the context and the state of the reference cell and returns a result
  (tag 1: an exception, \<open>Inl\<close>; tag 0: a value, \<open>Inr\<close>) with the state the cell
  holds afterwards. The cell is only accessed by \<^verbatim>\<open>lean_io_ref_get\<close>, and by
  \<^verbatim>\<open>lean_io_ref_take\<close> immediately followed (within the same function, with only pure
  code in between) by \<^verbatim>\<open>lean_io_ref_set\<close>; so the cell's content is threaded through.
\<close>

type_synonym ('ioe, 'kex, 'env, 'a) CoreM =
  "Context \<Rightarrow> 'env State \<Rightarrow> (('ioe, 'kex) Exception + 'a) \<times> 'env State"

definition io_ref_get :: "'s \<Rightarrow> 's \<times> 's" where
  "io_ref_get cell = (cell, cell)"

definition io_ref_take :: "'s \<Rightarrow> 's \<times> 's" where
  "io_ref_take cell = (cell, cell)"

definition io_ref_set :: "'s \<Rightarrow> 's \<Rightarrow> unit \<times> 's" where
  "io_ref_set v cell = ((), v)"

subsection \<open>Operations\<close>

text \<open>\<^verbatim>\<open>l_Lean_Core_throwError___rarg\<close>: the exception of tag 2 built from the context's
  reference (field 3) and the message; the state is passed on as it is.\<close>

definition throwError :: "message_data \<Rightarrow> ('ioe, 'kex, 'env, 'a) CoreM" where
  "throwError msg ctx st = (Inl (ElaborationFailure (ctx_ref ctx) msg), st)"

text \<open>Modelled from the spec: the text of \<^verbatim>\<open>l_Lean_maxRecDepthErrorMessage\<close>, an external
  constant of \<^verbatim>\<open>Lean.Util.RecDepth\<close> that \<^verbatim>\<open>CoreM.c\<close> only declares; the spec calls it
  the distinguished "max recursion depth" message.\<close>

definition maxRecDepthErrorMessage :: string where
  "maxRecDepthErrorMessage = ''max recursion depth''"

text \<open>\<^verbatim>\<open>l_Lean_Core_checkRecDepth___closed__2\<close>\<close>

definition checkRecDepth_msg :: message_data where
  "checkRecDepth_msg = ofFormat (Format_text maxRecDepthErrorMessage)"

text \<open>\<^verbatim>\<open>l_Lean_Core_checkRecDepth\<close>: compares fields 1 and 2 of the context.\<close>

definition checkRecDepth :: "('ioe, 'kex, 'env, unit) CoreM" where
  "checkRecDepth ctx st =
     (if currRecDepth ctx = maxRecDepth ctx then throwError checkRecDepth_msg ctx st
      else (Inr (), st))"

text \<open>\<^verbatim>\<open>l_Lean_Core_Context_incCurrRecDepth\<close>\<close>

definition incCurrRecDepth :: "Context \<Rightarrow> Context" where
  "incCurrRecDepth ctx = ctx\<lparr>currRecDepth := currRecDepth ctx + 1\<rparr>"

text \<open>\<^verbatim>\<open>l_Lean_Core_withIncRecDepth___rarg\<close>\<close>

definition withIncRecDepth ::
  "('ioe, 'kex, 'env, 'a) CoreM \<Rightarrow> ('ioe, 'kex, 'env, 'a) CoreM" where
  "withIncRecDepth x ctx st =
     (case checkRecDepth ctx st of
        (Inr _, st') \<Rightarrow> x (incCurrRecDepth ctx) st'
      | (Inl ex, st') \<Rightarrow> (Inl ex, st'))"

text \<open>\<^verbatim>\<open>l_Lean_Core_getEnv___rarg\<close>, \<^verbatim>\<open>l_Lean_Core_setEnv\<close>, \<^verbatim>\<open>l_Lean_Core_modifyEnv\<close>,
  \<^verbatim>\<open>l_Lean_Core_getOptions___rarg\<close>, \<^verbatim>\<open>l_Lean_Core_getTraceState___rarg\<close>\<close>

definition getEnv :: "('ioe, 'kex, 'env, 'env) CoreM" where
  "getEnv ctx st = (case io_ref_get st of (s, st') \<Rightarrow> (Inr (env s), st'))"

definition setEnv :: "'env \<Rightarrow> ('ioe, 'kex, 'env, unit) CoreM" where
  "setEnv e ctx st =
     (case io_ref_take st of (s, st') \<Rightarrow>
        (case io_ref_set (s\<lparr>env := e\<rparr>) st' of (_, st'') \<Rightarrow> (Inr (), st'')))"

definition modifyEnv :: "('env \<Rightarrow> 'env) \<Rightarrow> ('ioe, 'kex, 'env, unit) CoreM" where
  "modifyEnv f ctx st =
     (case io_ref_take st of (s, st') \<Rightarrow>
        (case io_ref_set (s\<lparr>env := f (env s)\<rparr>) st' of (_, st'') \<Rightarrow> (Inr (), st'')))"

definition getOptions :: "('ioe, 'kex, 'env, options) CoreM" where
  "getOptions ctx st = (Inr (ctx_options ctx), st)"

definition getTraceState :: "('ioe, 'kex, 'env, TraceState) CoreM" where
  "getTraceState ctx st = (case io_ref_get st of (s, st') \<Rightarrow> (Inr (traceState s), st'))"

text \<open>\<^verbatim>\<open>l_Lean_Core_tracer___lambda__1\<close>: the trace state (field 2) is replaced by its
  image under the function given.\<close>

definition modifyTraceState ::
  "(TraceState \<Rightarrow> TraceState) \<Rightarrow> ('ioe, 'kex, 'env, unit) CoreM" where
  "modifyTraceState f ctx st =
     (case io_ref_take st of (s, st') \<Rightarrow>
        (case io_ref_set (s\<lparr>traceState := f (traceState s)\<rparr>) st' of
           (_, st'') \<Rightarrow> (Inr (), st'')))"

text \<open>\<^verbatim>\<open>l_Lean_Core_mkFreshId___rarg\<close>: the name is built from the generator read with
  \<^verbatim>\<open>lean_io_ref_get\<close>; the state is then taken, the generator's index incremented
  (\<^verbatim>\<open>lean_nat_add\<close>, unbounded) and the state set. \<^verbatim>\<open>lean_name_mk_numeral\<close> is the
  numeral constructor of names.\<close>

definition mkFreshId :: "('ioe, 'kex, 'env, name) CoreM" where
  "mkFreshId ctx st =
     (case io_ref_get st of (s, st1) \<Rightarrow>
        let r = Num (namePrefix (ngen s)) (idx (ngen s)) in
        (case io_ref_take st1 of (s', st2) \<Rightarrow>
           let g = ngen s';
               g' = g\<lparr>idx := idx g + 1\<rparr> in
           (case io_ref_set (s'\<lparr>ngen := g'\<rparr>) st2 of (_, st3) \<Rightarrow> (Inr r, st3))))"

text \<open>
  \<^verbatim>\<open>l_Lean_Core_addDecl\<close>. The kernel's \<^verbatim>\<open>lean_add_decl\<close> is external: a pure function
  from an environment and a declaration to either a kernel exception (tag 0) or a new
  environment (tag 1). It is the parameter \<open>add_decl\<close>.
\<close>

definition addDecl ::
  "('env \<Rightarrow> 'decl \<Rightarrow> 'kex + 'env) \<Rightarrow> 'decl \<Rightarrow> ('ioe, 'kex, 'env, unit) CoreM" where
  "addDecl add_decl decl ctx st =
     (case getEnv ctx st of
        (Inl ex, st1) \<Rightarrow> (Inl ex, st1)
      | (Inr e, st1) \<Rightarrow>
          (case add_decl e decl of
             Inl kex \<Rightarrow>
               (case getOptions ctx st1 of
                  (Inl ex, st2) \<Rightarrow> (Inl ex, st2)
                | (Inr opts, st2) \<Rightarrow> (Inl (KernelFailure kex opts), st2))
           | Inr e' \<Rightarrow> setEnv e' ctx st1))"

text \<open>
  \<^verbatim>\<open>l_Lean_Core_compileDecl\<close>. The compiler backend \<^verbatim>\<open>lean_compile_decl\<close> is external
  too: from an environment, the options and a declaration to either a kernel exception or
  a new environment. It is the parameter \<open>compile_decl\<close>.
\<close>

definition compileDecl ::
  "('env \<Rightarrow> options \<Rightarrow> 'decl \<Rightarrow> 'kex + 'env) \<Rightarrow> 'decl \<Rightarrow> ('ioe, 'kex, 'env, unit) CoreM" where
  "compileDecl compile_decl decl ctx st =
     (case getEnv ctx st of
        (Inl ex, st1) \<Rightarrow> (Inl ex, st1)
      | (Inr e, st1) \<Rightarrow>
          (case getOptions ctx st1 of
             (Inl ex, st2) \<Rightarrow> (Inl ex, st2)
           | (Inr opts, st2) \<Rightarrow>
               (case compile_decl e opts decl of
                  Inl kex \<Rightarrow>
                    (case getOptions ctx st2 of
                       (Inl ex, st3) \<Rightarrow> (Inl ex, st3)
                     | (Inr opts', st3) \<Rightarrow> (Inl (KernelFailure kex opts'), st3))
                | Inr e' \<Rightarrow> setEnv e' ctx st2)))"

text \<open>\<^verbatim>\<open>l_Lean_Core_addAndCompile\<close>\<close>

definition addAndCompile ::
  "('env \<Rightarrow> 'decl \<Rightarrow> 'kex + 'env) \<Rightarrow> ('env \<Rightarrow> options \<Rightarrow> 'decl \<Rightarrow> 'kex + 'env) \<Rightarrow>
   'decl \<Rightarrow> ('ioe, 'kex, 'env, unit) CoreM" where
  "addAndCompile add_decl compile_decl decl ctx st =
     (case addDecl add_decl decl ctx st of
        (Inr _, st') \<Rightarrow> compileDecl compile_decl decl ctx st'
      | (Inl ex, st') \<Rightarrow> (Inl ex, st'))"

text \<open>
  \<^verbatim>\<open>l_Lean_Core_Exception_toMessageData\<close>. The collaborators
  \<^verbatim>\<open>lean_io_error_to_string\<close> and \<^verbatim>\<open>l_Lean_KernelException_toMessageData\<close> are the
  parameters \<open>io_error_to_string\<close> and \<open>kernel_toMessageData\<close>; the latter is called with
  fields 0 and 1 of the exception of tag 1.
\<close>

definition toMessageData ::
  "('ioe \<Rightarrow> string) \<Rightarrow> ('kex \<Rightarrow> options \<Rightarrow> message_data) \<Rightarrow>
   ('ioe, 'kex) Exception \<Rightarrow> message_data" where
  "toMessageData io_error_to_string kernel_toMessageData ex =
     (case ex of
        IoFailure e \<Rightarrow> ofFormat (Format_text (io_error_to_string e))
      | KernelFailure kex opts \<Rightarrow> kernel_toMessageData kex opts
      | ElaborationFailure r msg \<Rightarrow> msg)"


subsection \<open>Sequencing and small collaborators used in the examples\<close>

text \<open>
  Sequential composition of two actions, as the compiled code writes it out at every
  call site (see \<^verbatim>\<open>l_Lean_Core_addAndCompile\<close>): the second action runs on the state
  left by the first unless the first returned an exception.
\<close>

definition andThen ::
  "('ioe, 'kex, 'env, unit) CoreM \<Rightarrow> ('ioe, 'kex, 'env, 'a) CoreM \<Rightarrow>
   ('ioe, 'kex, 'env, 'a) CoreM" where
  "andThen x y ctx st =
     (case x ctx st of
        (Inr _, st') \<Rightarrow> y ctx st'
      | (Inl ex, st') \<Rightarrow> (Inl ex, st'))"

text \<open>\<open>k\<close> calls of \<open>mkFreshId\<close> in a row, collecting the identifiers returned.\<close>

fun mkFreshIds ::
  "nat \<Rightarrow> Context \<Rightarrow> 'env State \<Rightarrow> (('ioe, 'kex) Exception + name list) \<times> 'env State" where
  "mkFreshIds 0 ctx st = (Inr [], st)"
| "mkFreshIds (Suc k) ctx st =
     (case mkFreshId ctx st of
        (Inl ex, st') \<Rightarrow> (Inl ex, st')
      | (Inr n, st') \<Rightarrow>
          (case mkFreshIds k ctx st' of
             (Inl ex, st'') \<Rightarrow> (Inl ex, st'')
           | (Inr ns, st'') \<Rightarrow> (Inr (n # ns), st'')))"

text \<open>
  A run as a sequence of the operations on the state that \<^verbatim>\<open>CoreM.c\<close> provides, with
  the identifiers that its calls of \<open>mkFreshId\<close> return collected in order.
\<close>

datatype 'env core_op =
  FreshId
| SetEnv 'env
| ModifyEnv "'env \<Rightarrow> 'env"
| ModifyTraceState "TraceState \<Rightarrow> TraceState"

fun run_ops ::
  "'env core_op list \<Rightarrow> Context \<Rightarrow> 'env State \<Rightarrow>
   (('ioe, 'kex) Exception + name list) \<times> 'env State" where
  "run_ops [] ctx st = (Inr [], st)"
| "run_ops (FreshId # ops) ctx st =
     (case mkFreshId ctx st of
        (Inl ex, st') \<Rightarrow> (Inl ex, st')
      | (Inr n, st') \<Rightarrow>
          (case run_ops ops ctx st' of
             (Inl ex, st'') \<Rightarrow> (Inl ex, st'')
           | (Inr ns, st'') \<Rightarrow> (Inr (n # ns), st'')))"
| "run_ops (SetEnv e # ops) ctx st =
     (case setEnv e ctx st of
        (Inl ex, st') \<Rightarrow> (Inl ex, st')
      | (Inr u, st') \<Rightarrow> run_ops ops ctx st')"
| "run_ops (ModifyEnv f # ops) ctx st =
     (case modifyEnv f ctx st of
        (Inl ex, st') \<Rightarrow> (Inl ex, st')
      | (Inr u, st') \<Rightarrow> run_ops ops ctx st')"
| "run_ops (ModifyTraceState f # ops) ctx st =
     (case modifyTraceState f ctx st of
        (Inl ex, st') \<Rightarrow> (Inl ex, st')
      | (Inr u, st') \<Rightarrow> run_ops ops ctx st')"

fun count_fresh :: "'env core_op list \<Rightarrow> nat" where
  "count_fresh [] = 0"
| "count_fresh (FreshId # ops) = Suc (count_fresh ops)"
| "count_fresh (x # ops) = count_fresh ops"

text \<open>
  A toy instance of the collaborators for the examples: environments are lists of
  declaration numbers; the kernel rejects a declaration already present and otherwise
  adds it; the compiler backend fails on odd declarations and leaves the environment as
  it is on even ones. A second kernel rejects everything, and a formatter of kernel
  exceptions prints the exception and one dot per option.
\<close>

definition toy_add_decl :: "nat list \<Rightarrow> nat \<Rightarrow> string + nat list" where
  "toy_add_decl e d = (if d \<in> set e then Inl ''already declared'' else Inr (e @ [d]))"

definition toy_compile_decl :: "nat list \<Rightarrow> options \<Rightarrow> nat \<Rightarrow> string + nat list" where
  "toy_compile_decl e opts d = (if odd d then Inl ''no code generated'' else Inr e)"

definition toy_reject :: "nat list \<Rightarrow> nat \<Rightarrow> string + nat list" where
  "toy_reject e d = Inl ''rejected''"

definition toy_kernel_toMessageData :: "string \<Rightarrow> options \<Rightarrow> message_data" where
  "toy_kernel_toMessageData kex opts =
     compose (ofFormat (Format_text kex))
       (ofFormat (Format_text (concat (map (\<lambda>kv. ''.'') opts))))"

text \<open>The context and state a run starts from (\<^verbatim>\<open>l_Lean_Core_run___rarg\<close>: depth 0, the
  missing syntax as reference), here with the maximal depth 3 and no options.\<close>

definition ctx3 :: Context where
  "ctx3 = \<lparr>ctx_options = [], currRecDepth = 0, maxRecDepth = 3, ctx_ref = Syntax_missing\<rparr>"

definition st0 :: "nat list State" where
  "st0 = \<lparr>env = [], ngen = \<lparr>namePrefix = Str Anonymous ''_uniq'', idx = 1\<rparr>,
          traceState = \<lparr>ts_enabled = False, traces = []\<rparr>\<rparr>"

definition pp_opts :: options where
  "pp_opts = [(Str Anonymous ''pp'', ofBool True)]"

text \<open>A body that leaves a mark in the environment, and the nestings of the recursion
  fence with one such body per level.\<close>

definition mark :: "nat \<Rightarrow> (unit, string, nat list, unit) CoreM" where
  "mark i = modifyEnv (\<lambda>e. e @ [i])"

definition nested3 :: "(unit, string, nat list, unit) CoreM" where
  "nested3 =
     withIncRecDepth (andThen (mark 1)
       (withIncRecDepth (andThen (mark 2)
         (withIncRecDepth (mark 3)))))"

definition nested4 :: "(unit, string, nat list, unit) CoreM" where
  "nested4 =
     withIncRecDepth (andThen (mark 1)
       (withIncRecDepth (andThen (mark 2)
         (withIncRecDepth (andThen (mark 3)
           (withIncRecDepth (mark 4)))))))"

section \<open>Trace classes and scoped trace environments (\<^verbatim>\<open>library/trace.cpp\<close>)\<close>

subsection \<open>Operations on names used by the trace registry\<close>

text \<open>Modelled from the spec: \<^verbatim>\<open>is_prefix_of\<close>, which \<^verbatim>\<open>util/name.h\<close> declares as a friend
  and whose body (in \<^verbatim>\<open>name.cpp\<close>) is not among the sources. The spec: "true iff walking
  \<open>b\<close>'s prefix chain reaches exactly \<open>a\<close>"; the chain of \<open>b\<close> starts at \<open>b\<close> and ends
  at the anonymous root.\<close>

fun is_prefix_of :: "name \<Rightarrow> name \<Rightarrow> bool" where
  "is_prefix_of a Anonymous = (a = Anonymous)"
| "is_prefix_of a (Str p s) = (a = Str p s \<or> is_prefix_of a p)"
| "is_prefix_of a (Num p k) = (a = Num p k \<or> is_prefix_of a p)"

text \<open>Modelled from the spec: \<^verbatim>\<open>name::replace_prefix\<close>, declared in \<^verbatim>\<open>util/name.h\<close> with
  its body not among the sources. The spec: "if \<open>old\<close> is a prefix of \<open>n\<close>, rebuild
  \<open>n\<close>'s chain substituting \<open>new\<close> for the matched prefix, otherwise return \<open>n\<close>
  unchanged".\<close>

fun replace_prefix :: "name \<Rightarrow> name \<Rightarrow> name \<Rightarrow> name" where
  "replace_prefix Anonymous old new = (if old = Anonymous then new else Anonymous)"
| "replace_prefix (Str p s) old new =
     (if old = Str p s then new else Str (replace_prefix p old new) s)"
| "replace_prefix (Num p k) old new =
     (if old = Num p k then new else Num (replace_prefix p old new) k)"

subsection \<open>Registry and thread-local state\<close>

text \<open>
  The alias registry \<^verbatim>\<open>g_trace_aliases\<close> is a map from class names to sets of names. The
  thread-local state is the two vectors of class names and the three bound pointers
  \<^verbatim>\<open>g_env\<close>, \<^verbatim>\<open>g_opts\<close>, \<^verbatim>\<open>g_ctx\<close>; a pointer is an optional address, \<open>None\<close> the
  null pointer.
\<close>

type_synonym addr = nat

type_synonym trace_aliases = "name \<Rightarrow> name set option"

record trace_tls =
  enabled_trace_classes :: "name list"
  disabled_trace_classes :: "name list"
  g_env :: "addr option"
  g_opts :: "addr option"
  g_ctx :: "addr option"

text \<open>\<^verbatim>\<open>register_trace_class_alias\<close>\<close>

definition register_trace_class_alias :: "name \<Rightarrow> name \<Rightarrow> trace_aliases \<Rightarrow> trace_aliases" where
  "register_trace_class_alias n alias aliases =
     (let new_s = (case aliases n of Some s \<Rightarrow> s | None \<Rightarrow> {})
      in aliases(n \<mapsto> insert alias new_s))"

text \<open>\<^verbatim>\<open>is_trace_enabled\<close>\<close>

definition is_trace_enabled :: "trace_tls \<Rightarrow> bool" where
  "is_trace_enabled st = (enabled_trace_classes st \<noteq> [])"

text \<open>\<^verbatim>\<open>update_class\<close> (\<^verbatim>\<open>std::find\<close> compares with the equality of names),
  \<^verbatim>\<open>enable_trace_class\<close>, \<^verbatim>\<open>disable_trace_class\<close>\<close>

definition update_class :: "name list \<Rightarrow> name \<Rightarrow> name list" where
  "update_class cs c = (if c \<in> set cs then cs else cs @ [c])"

definition enable_trace_class :: "name \<Rightarrow> trace_tls \<Rightarrow> trace_tls" where
  "enable_trace_class c st =
     st\<lparr>enabled_trace_classes := update_class (enabled_trace_classes st) c\<rparr>"

definition disable_trace_class :: "name \<Rightarrow> trace_tls \<Rightarrow> trace_tls" where
  "disable_trace_class c st =
     st\<lparr>disabled_trace_classes := update_class (disabled_trace_classes st) c\<rparr>"

text \<open>\<^verbatim>\<open>is_trace_class_set_core\<close>: the loop over the vector, left at the first hit.\<close>

fun is_trace_class_set_core :: "name list \<Rightarrow> name \<Rightarrow> bool" where
  "is_trace_class_set_core [] n = False"
| "is_trace_class_set_core (p # cs) n =
     (if is_prefix_of p n then True else is_trace_class_set_core cs n)"

text \<open>
  The \<^verbatim>\<open>while (true)\<close> loop of \<^verbatim>\<open>is_trace_class_set\<close>, started at \<open>it = n\<close>. The
  traversal of the alias set with the flag \<^verbatim>\<open>found\<close> sets the flag exactly if some alias
  of the set satisfies \<^verbatim>\<open>is_trace_class_set_core\<close>; the order of the traversal does not
  matter.
\<close>

function is_trace_class_set_loop :: "trace_aliases \<Rightarrow> name list \<Rightarrow> name \<Rightarrow> bool" where
  "is_trace_class_set_loop aliases cs it =
     (if (case aliases it of
            Some s \<Rightarrow> (\<exists>alias\<in>s. is_trace_class_set_core cs alias)
          | None \<Rightarrow> False)
      then True
      else if is_atomic it then False
      else is_trace_class_set_loop aliases cs (get_prefix it))"
  by pat_completeness auto
termination
proof (relation "measure (\<lambda>(aliases, cs, it). size it)")
  show "wf (measure (\<lambda>(aliases, cs, it). size it))"
    by simp
next
  fix aliases :: trace_aliases and cs :: "name list" and it :: name
  assume "\<not> is_atomic it"
  then show "((aliases, cs, get_prefix it), (aliases, cs, it))
      \<in> measure (\<lambda>(aliases, cs, it). size it)"
    by (cases it) (simp_all add: is_atomic_def is_anonymous_def)
qed

declare is_trace_class_set_loop.simps [simp del]

text \<open>\<^verbatim>\<open>is_trace_class_set\<close>\<close>

definition is_trace_class_set :: "trace_aliases \<Rightarrow> name list \<Rightarrow> name \<Rightarrow> bool" where
  "is_trace_class_set aliases cs n =
     (if is_trace_class_set_core cs n then True else is_trace_class_set_loop aliases cs n)"

text \<open>\<^verbatim>\<open>is_trace_class_enabled\<close>\<close>

definition is_trace_class_enabled :: "trace_aliases \<Rightarrow> trace_tls \<Rightarrow> name \<Rightarrow> bool" where
  "is_trace_class_enabled aliases st n =
     (if \<not> is_trace_enabled st then False
      else if is_trace_class_set aliases (disabled_trace_classes st) n then False
      else is_trace_class_set aliases (enabled_trace_classes st) n)"

subsection \<open>The matching of a class as the specification words it\<close>

text \<open>
  A class \<open>n\<close> is matched in a list of classes if an entry of the list is a prefix of
  \<open>n\<close>, or if, walking the prefix chain of \<open>n\<close> (\<open>n\<close> itself, then its prefixes, until
  the anonymous root is reached), some name \<open>p\<close> on the way has a registered alias of
  which an entry of the list is a prefix.
\<close>

definition on_prefix_walk :: "name \<Rightarrow> name \<Rightarrow> bool" where
  "on_prefix_walk p n = (is_prefix_of p n \<and> (p \<noteq> Anonymous \<or> n = Anonymous))"

definition class_matched :: "trace_aliases \<Rightarrow> name list \<Rightarrow> name \<Rightarrow> bool" where
  "class_matched aliases cs n =
     ((\<exists>c\<in>set cs. is_prefix_of c n) \<or>
      (\<exists>p s. on_prefix_walk p n \<and> aliases p = Some s \<and>
         (\<exists>a\<in>s. \<exists>c\<in>set cs. is_prefix_of c a)))"

subsection \<open>Scoped trace environments\<close>

text \<open>The fields of a \<^verbatim>\<open>scope_trace_env\<close> object.\<close>

record scope_trace_env =
  m_enable_sz :: nat
  m_disable_sz :: nat
  m_old_env :: "addr option"
  m_old_opts :: "addr option"
  m_old_ctx :: "addr option"

text \<open>Modelled from the spec: \<^verbatim>\<open>options::get_bool\<close> of the option map (its class is not
  among the sources): the boolean stored under the key, or the default given.\<close>

definition get_bool :: "options \<Rightarrow> name \<Rightarrow> bool \<Rightarrow> bool" where
  "get_bool opts n dflt = (case map_of opts n of Some (ofBool b) \<Rightarrow> b | _ \<Rightarrow> dflt)"

text \<open>The body of the lambda that \<^verbatim>\<open>scope_trace_env::init\<close> runs on every key of the
  option map.\<close>

definition init_key :: "options \<Rightarrow> name \<Rightarrow> trace_tls \<Rightarrow> trace_tls" where
  "init_key opts n st =
     (let trace = Str Anonymous ''trace'' in
      if is_prefix_of trace n then
        let cls = replace_prefix n trace Anonymous in
        if get_bool opts n False then enable_trace_class cls st
        else disable_trace_class cls st
      else st)"

text \<open>
  \<^verbatim>\<open>scope_trace_env::init\<close>. The pointer to the option map is given with the map it
  points to; \<^verbatim>\<open>opts && g_opts != opts\<close> compares addresses. \<^verbatim>\<open>for_each\<close> visits the keys
  of the map in its order. The result is the scope object and the new thread-local state.
\<close>

definition init ::
  "addr option \<Rightarrow> (addr \<times> options) option \<Rightarrow> addr option \<Rightarrow> trace_tls \<Rightarrow>
   scope_trace_env \<times> trace_tls" where
  "init e opts c st =
     (let sc = \<lparr>m_enable_sz = length (enabled_trace_classes st),
                m_disable_sz = length (disabled_trace_classes st),
                m_old_env = g_env st, m_old_opts = g_opts st, m_old_ctx = g_ctx st\<rparr>;
          st1 = st\<lparr>g_env := e, g_ctx := c\<rparr>;
          st2 = (case opts of
                   None \<Rightarrow> st1
                 | Some (a, kvs) \<Rightarrow>
                     if g_opts st1 \<noteq> Some a then fold (init_key kvs) (map fst kvs) st1
                     else st1)
      in (sc, st2\<lparr>g_opts := map_option fst opts\<rparr>))"

text \<open>\<^verbatim>\<open>std::vector::resize\<close>: cut to the first \<open>n\<close> elements, or filled up to \<open>n\<close>
  elements with default-constructed (anonymous) names.\<close>

definition resize :: "name list \<Rightarrow> nat \<Rightarrow> name list" where
  "resize xs n = take n xs @ replicate (n - length xs) Anonymous"

text \<open>The destructor \<^verbatim>\<open>scope_trace_env::~scope_trace_env\<close>.\<close>

definition scope_exit :: "scope_trace_env \<Rightarrow> trace_tls \<Rightarrow> trace_tls" where
  "scope_exit sc st =
     st\<lparr>g_env := m_old_env sc, g_opts := m_old_opts sc, g_ctx := m_old_ctx sc,
        enabled_trace_classes := resize (enabled_trace_classes st) (m_enable_sz sc),
        disabled_trace_classes := resize (disabled_trace_classes st) (m_disable_sz sc)\<rparr>"

text \<open>
  A block \<^verbatim>\<open>{ scope_trace_env scope(env, opts, ctx); body }\<close>: the constructor runs
  \<open>init\<close>, the body runs, and the destructor runs when the block is left, whether the
  body returned (\<open>Inr\<close>) or an exception propagates out of it (\<open>Inl\<close>).
\<close>

definition scoped ::
  "addr option \<Rightarrow> (addr \<times> options) option \<Rightarrow> addr option \<Rightarrow>
   (trace_tls \<Rightarrow> ('e + 'a) \<times> trace_tls) \<Rightarrow> trace_tls \<Rightarrow> ('e + 'a) \<times> trace_tls" where
  "scoped e opts c body st =
     (case init e opts c st of (sc, st1) \<Rightarrow>
        (case body st1 of (r, st2) \<Rightarrow> (r, scope_exit sc st2)))"

text \<open>Names and states of the examples.\<close>

definition nA :: name where "nA = Str Anonymous ''A''"
definition nAB :: name where "nAB = Str nA ''B''"
definition nABC :: name where "nABC = Str nAB ''C''"
definition nD :: name where "nD = Str Anonymous ''D''"

definition tls0 :: trace_tls where
  "tls0 = \<lparr>enabled_trace_classes = [], disabled_trace_classes = [],
           g_env = None, g_opts = None, g_ctx = None\<rparr>"

definition tlsA :: trace_tls where
  "tlsA = tls0\<lparr>enabled_trace_classes := [nA]\<rparr>"

definition opts_trace_AB :: options where
  "opts_trace_AB = [(Str (Str (Str Anonymous ''trace'') ''A'') ''B'', ofBool True)]"

definition body_returns :: "trace_tls \<Rightarrow> (string + unit) \<times> trace_tls" where
  "body_returns st = (Inr (), st)"

definition body_throws :: "trace_tls \<Rightarrow> (string + unit) \<times> trace_tls" where
  "body_throws st = (Inl ''failure'', st)"

section \<open>Name objects: cached hash codes, equality and comparison (\<^verbatim>\<open>util/name.h\<close>)\<close>

text \<open>
  In memory the anonymous name is a boxed scalar, and every other name is an object with
  its prefix (field 0), its string or its numeral (field 1, the numeral read as
  \<^verbatim>\<open>unsigned\<close>) and, as a scalar field, the hash code cached when the object was built.
  The objects are modelled with the cached hash code in every node, whatever its value.
\<close>

datatype name_obj =
  Anon
| StrObj name_obj string "32 word"
| NumObj name_obj "32 word" "32 word"

text \<open>
  A \<^verbatim>\<open>name\<close> value of the C++ code is a reference: the raw pointer \<^verbatim>\<open>raw()\<close> and the
  object it points to. Two references with the same raw pointer point to the same object;
  the converse need not hold.
\<close>

record name_ref =
  raw :: nat
  obj :: name_obj

text \<open>\<^verbatim>\<open>is_scalar(raw())\<close>: only the anonymous name is a boxed scalar.\<close>

definition is_scalar :: "name_ref \<Rightarrow> bool" where
  "is_scalar a = (obj a = Anon)"

text \<open>\<^verbatim>\<open>unsigned hash() const { return is_scalar(raw()) ? 11 : hash(raw()); }\<close>, where
  \<^verbatim>\<open>hash(object*)\<close> reads the cached scalar field.\<close>

definition name_hash :: "name_ref \<Rightarrow> 32 word" where
  "name_hash a = (case obj a of Anon \<Rightarrow> 11 | StrObj p s h \<Rightarrow> h | NumObj p k h \<Rightarrow> h)"

text \<open>Modelled from the spec: \<^verbatim>\<open>name::eq_core\<close>, declared in \<^verbatim>\<open>util/name.h\<close> with its
  body (in \<^verbatim>\<open>name.cpp\<close>) not among the sources. The spec: "equality is structural":
  the same kinds and components along the two prefix chains.\<close>

fun eq_core :: "name_obj \<Rightarrow> name_obj \<Rightarrow> bool" where
  "eq_core Anon Anon = True"
| "eq_core (StrObj p s h) (StrObj q t g) = (s = t \<and> eq_core p q)"
| "eq_core (NumObj p k h) (NumObj q l g) = (k = l \<and> eq_core p q)"
| "eq_core _ _ = False"

text \<open>Modelled from the spec: \<^verbatim>\<open>name::cmp_core\<close>, declared in \<^verbatim>\<open>util/name.h\<close> with its
  body not among the sources. The spec: "a total order exists independent of hash
  (lexicographic over the prefix chain)". The components are compared from the root on:
  strings bytewise, numerals by size; the spec leaves open how a string compares with a
  numeral, and the string is put above here. A shorter chain that is a prefix of the
  longer one is below it.\<close>

datatype limb = LStr string | LNum "32 word"

fun limbs :: "name_obj \<Rightarrow> limb list" where
  "limbs Anon = []"
| "limbs (StrObj p s h) = limbs p @ [LStr s]"
| "limbs (NumObj p k h) = limbs p @ [LNum k]"

fun strcmp :: "string \<Rightarrow> string \<Rightarrow> int" where
  "strcmp [] [] = 0"
| "strcmp [] (y # ys) = - 1"
| "strcmp (x # xs) [] = 1"
| "strcmp (x # xs) (y # ys) =
     (if (of_char x :: nat) < of_char y then - 1
      else if (of_char y :: nat) < of_char x then 1
      else strcmp xs ys)"

fun cmp_limb :: "limb \<Rightarrow> limb \<Rightarrow> int" where
  "cmp_limb (LStr s) (LStr t) = strcmp s t"
| "cmp_limb (LNum k) (LNum l) = (if k = l then 0 else if k < l then - 1 else 1)"
| "cmp_limb (LStr s) (LNum l) = 1"
| "cmp_limb (LNum k) (LStr t) = - 1"

fun cmp_limbs :: "limb list \<Rightarrow> limb list \<Rightarrow> int" where
  "cmp_limbs [] [] = 0"
| "cmp_limbs [] (y # ys) = - 1"
| "cmp_limbs (x # xs) [] = 1"
| "cmp_limbs (x # xs) (y # ys) =
     (if cmp_limb x y \<noteq> 0 then cmp_limb x y else cmp_limbs xs ys)"

definition cmp_core :: "name_obj \<Rightarrow> name_obj \<Rightarrow> int" where
  "cmp_core a b = cmp_limbs (limbs a) (limbs b)"

text \<open>\<^verbatim>\<open>friend bool operator==(name const & a, name const & b)\<close>\<close>

definition name_eq :: "name_ref \<Rightarrow> name_ref \<Rightarrow> bool" where
  "name_eq a b =
     (if raw a = raw b then True
      else if is_scalar a \<noteq> is_scalar b then False
      else if name_hash a \<noteq> name_hash b then False
      else eq_core (obj a) (obj b))"

text \<open>\<^verbatim>\<open>friend int cmp(name const & a, name const & b)\<close>\<close>

definition cmp :: "name_ref \<Rightarrow> name_ref \<Rightarrow> int" where
  "cmp a b = cmp_core (obj a) (obj b)"

text \<open>\<^verbatim>\<open>friend int quick_cmp(name const & a, name const & b)\<close>\<close>

definition quick_cmp :: "name_ref \<Rightarrow> name_ref \<Rightarrow> int" where
  "quick_cmp a b =
     (if raw a = raw b then 0
      else
        let h1 = name_hash a; h2 = name_hash b in
        if h1 \<noteq> h2 then (if h1 < h2 then - 1 else 1)
        else if name_eq a b then 0
        else cmp a b)"

text \<open>Two references to distinct objects that hold the same name \<open>x.7\<close>, and a third
  name with another hash code.\<close>

definition ref1 :: name_ref where
  "ref1 = \<lparr>raw = 4096, obj = NumObj (StrObj Anon ''x'' 1723) 7 99\<rparr>"

definition ref2 :: name_ref where
  "ref2 = \<lparr>raw = 8192, obj = NumObj (StrObj Anon ''x'' 1723) 7 99\<rparr>"

definition ref3 :: name_ref where
  "ref3 = \<lparr>raw = 12288, obj = StrObj Anon ''y'' 1724\<rparr>"

section \<open>Elaboration of \<^verbatim>\<open>set_option\<close> (\<^verbatim>\<open>Lean/Elab/SetOption.c\<close>)\<close>

text \<open>
  This module is compiled from a later version of the library than \<^verbatim>\<open>CoreM.c\<close>: its
  exception of tag 0 holds a syntax reference and a message. The function is written for
  any monad \<open>m\<close> with the type class instances it is passed as dictionaries. The model
  fixes \<open>m\<close> to state passing with exceptions, with the usual \<open>pure\<close>, \<open>bind\<close> and
  \<open>throw\<close> for the dictionaries \<^verbatim>\<open>x_1\<close> (monad) and \<^verbatim>\<open>x_3\<close> (exceptions), and takes the
  other dictionaries as the record \<open>dictionaries\<close>.
\<close>

datatype elab_exception = Exception_error Syntax message_data

type_synonym ('s, 'a) elabM = "'s \<Rightarrow> (elab_exception + 'a) \<times> 's"

definition pureM :: "'a \<Rightarrow> ('s, 'a) elabM" where
  "pureM a s = (Inr a, s)"

definition bindM :: "('s, 'a) elabM \<Rightarrow> ('a \<Rightarrow> ('s, 'b) elabM) \<Rightarrow> ('s, 'b) elabM" where
  "bindM x f s = (case x s of (Inl ex, s') \<Rightarrow> (Inl ex, s') | (Inr a, s') \<Rightarrow> f a s')"

definition throwM :: "elab_exception \<Rightarrow> ('s, 'a) elabM" where
  "throwM ex s = (Inl ex, s)"

text \<open>The dictionaries \<^verbatim>\<open>x_2\<close> (the options in force), \<^verbatim>\<open>x_4\<close> (field 0: the current
  syntax reference) and \<^verbatim>\<open>x_5\<close> (adding context to an error message).\<close>

record 's dictionaries =
  getOptionsM :: "('s, options) elabM"
  getRefM :: "('s, Syntax) elabM"
  addErrorMessageContext :: "Syntax \<Rightarrow> message_data \<Rightarrow> ('s, Syntax \<times> message_data) elabM"

text \<open>The declaration of an option; field 0 is its default value.\<close>

record option_decl =
  defValue :: data_value
  decl_group :: string
  decl_descr :: string

text \<open>
  The functions and constants of other modules that \<^verbatim>\<open>SetOption.c\<close> only declares:
  \<^verbatim>\<open>l_Lean_Syntax_isStrLit_x3f\<close>, \<^verbatim>\<open>l___private_Init_Meta_0__Lean_Syntax_isNatLitAux\<close>
  applied to \<^verbatim>\<open>l_Lean_numLitKind\<close>, \<^verbatim>\<open>l_Lean_Syntax_getId\<close>, \<^verbatim>\<open>lean_erase_macro_scopes\<close>,
  \<^verbatim>\<open>l_Lean_getOptionDecl\<close> (an I/O action, here its result), \<^verbatim>\<open>lean_io_error_to_string\<close>,
  \<^verbatim>\<open>l_Lean_DataValue_sameCtor\<close>, \<^verbatim>\<open>l_Lean_KVMap_insertCore\<close>, \<^verbatim>\<open>l_Lean_stringToMessageData\<close>
  and the message \<^verbatim>\<open>l_Lean_KernelException_toMessageData___closed__15\<close> that ends the
  error message.
\<close>

record 'ioe collaborators =
  isStrLit :: "Syntax \<Rightarrow> string option"
  isNatLit :: "Syntax \<Rightarrow> nat option"
  getId :: "Syntax \<Rightarrow> name"
  eraseMacroScopes :: "name \<Rightarrow> name"
  getOptionDecl :: "name \<Rightarrow> 'ioe + option_decl"
  io_error_to_string :: "'ioe \<Rightarrow> string"
  sameCtor :: "data_value \<Rightarrow> data_value \<Rightarrow> bool"
  insertCore :: "options \<Rightarrow> name \<Rightarrow> data_value \<Rightarrow> options"
  stringToMessageData :: "string \<Rightarrow> message_data"
  message_end :: message_data

text \<open>Modelled from the spec: the four constants of other modules that the match on an
  atom uses and \<^verbatim>\<open>SetOption.c\<close> only declares. \<^verbatim>\<open>l_instReprBool___closed__3\<close> and
  \<^verbatim>\<open>l_instReprBool___closed__1\<close> are the strings with which booleans are printed, and
  \<^verbatim>\<open>l_Lean_mkAnnotation___closed__1\<close> and
  \<^verbatim>\<open>l_Lean_initFn____x40_Lean_Util_PPExt___hyg_3____closed__3\<close> are the boolean data values
  true and false, the values that the atoms \<open>true\<close> and \<open>false\<close> stand for.\<close>

definition instReprBool_closed_3 :: string where
  "instReprBool_closed_3 = ''true''"

definition instReprBool_closed_1 :: string where
  "instReprBool_closed_1 = ''false''"

definition mkAnnotation_closed_1 :: data_value where
  "mkAnnotation_closed_1 = ofBool True"

definition PPExt_closed_3 :: data_value where
  "PPExt_closed_3 = ofBool False"

text \<open>\<^verbatim>\<open>l_Lean_throwError___at_Lean_Elab_elabSetOption___spec__1___rarg\<close> (and its copies
  \<^verbatim>\<open>spec__2\<close> to \<^verbatim>\<open>spec__4\<close> and the one of \<^verbatim>\<open>setOption\<close>): read the reference, add
  the context to the message, throw the exception of tag 0 built from the pair.\<close>

definition throwErrorM :: "'s dictionaries \<Rightarrow> message_data \<Rightarrow> ('s, 'a) elabM" where
  "throwErrorM D msg =
     bindM (getRefM D) (\<lambda>r.
       bindM (addErrorMessageContext D r msg) (\<lambda>(r', msg').
         throwM (Exception_error r' msg')))"

text \<open>\<^verbatim>\<open>l_IO_toEIO___rarg\<close> followed by the lift into the monad (dictionary \<^verbatim>\<open>x_6\<close>): the
  result of the I/O action with its error translated.\<close>

definition liftIO :: "('ioe \<Rightarrow> elab_exception) \<Rightarrow> 'ioe + 'a \<Rightarrow> ('s, 'a) elabM" where
  "liftIO f r s = (case r of Inl e \<Rightarrow> (Inl (f e), s) | Inr a \<Rightarrow> (Inr a, s))"

text \<open>\<^verbatim>\<open>l_Lean_Elab_elabSetOption_setOption___rarg\<close> with its lambdas 1 to 5.\<close>

definition setOption ::
  "'ioe collaborators \<Rightarrow> 's dictionaries \<Rightarrow> name \<Rightarrow> data_value \<Rightarrow> ('s, options) elabM" where
  "setOption X D optionName val =
     bindM (getRefM D) (\<lambda>r.
       bindM (liftIO
                (\<lambda>ex. Exception_error r (ofFormat (Format_text (io_error_to_string X ex))))
                (getOptionDecl X optionName)) (\<lambda>decl.
         bindM (if \<not> sameCtor X (defValue decl) val
                then throwErrorM D (stringToMessageData X ''type mismatch at set_option'')
                else pureM ()) (\<lambda>u.
           bindM (getOptionsM D) (\<lambda>opts.
             pureM (insertCore X opts optionName val)))))"

text \<open>The message built in each failing branch of \<^verbatim>\<open>l_Lean_Elab_elabSetOption___rarg\<close>:
  the composition (tag 10) of the composition of \<^verbatim>\<open>closed__2\<close> (the message of the string
  \<^verbatim>\<open>"unexpected set_option value "\<close>) with the value's syntax, and the final message.\<close>

definition unexpected_value_msg :: "'ioe collaborators \<Rightarrow> Syntax \<Rightarrow> message_data" where
  "unexpected_value_msg X val =
     compose (compose (stringToMessageData X ''unexpected set_option value '') (ofSyntax val))
       (message_end X)"

text \<open>\<^verbatim>\<open>l_Lean_Elab_elabSetOption___rarg\<close>\<close>

definition elabSetOption ::
  "'ioe collaborators \<Rightarrow> 's dictionaries \<Rightarrow> Syntax \<Rightarrow> Syntax \<Rightarrow> ('s, options) elabM" where
  "elabSetOption X D stx val =
     (let optionName = eraseMacroScopes X (getId X stx) in
      case isStrLit X val of
        Some str \<Rightarrow> setOption X D optionName (ofString str)
      | None \<Rightarrow>
          (case isNatLit X val of
             Some num \<Rightarrow> setOption X D optionName (ofNat num)
           | None \<Rightarrow>
               (case val of
                  Syntax_missing \<Rightarrow> throwErrorM D (unexpected_value_msg X val)
                | Syntax_node k args \<Rightarrow> throwErrorM D (unexpected_value_msg X val)
                | Syntax_atom info v \<Rightarrow>
                    if v = instReprBool_closed_3 then setOption X D optionName mkAnnotation_closed_1
                    else if v = instReprBool_closed_1 then setOption X D optionName PPExt_closed_3
                    else throwErrorM D (unexpected_value_msg X val)
                | Syntax_ident info rawVal v pre \<Rightarrow> throwErrorM D (unexpected_value_msg X val))))"

text \<open>
  Small collaborators and dictionaries for the examples: a string literal is a node of
  kind \<open>strLit\<close> over one atom, a numeric literal a node of kind \<open>numLit\<close> over one atom
  (read as the number of its digits here); every option is declared with a boolean
  default; the dictionaries read a state that holds the options and leave it as it is.
\<close>

definition toy_collaborators :: "unit collaborators" where
  "toy_collaborators =
     \<lparr>isStrLit = (\<lambda>v. case v of
          Syntax_node k [Syntax_atom i s] \<Rightarrow> if k = Str Anonymous ''strLit'' then Some s else None
        | _ \<Rightarrow> None),
      isNatLit = (\<lambda>v. case v of
          Syntax_node k [Syntax_atom i s] \<Rightarrow>
            if k = Str Anonymous ''numLit'' then Some (length s) else None
        | _ \<Rightarrow> None),
      getId = (\<lambda>v. case v of Syntax_ident i r n pre \<Rightarrow> n | _ \<Rightarrow> Anonymous),
      eraseMacroScopes = (\<lambda>n. n),
      getOptionDecl = (\<lambda>n. Inr \<lparr>defValue = ofBool False, decl_group = [], decl_descr = []\<rparr>),
      io_error_to_string = (\<lambda>u. ''io error''),
      sameCtor = (\<lambda>a b. case (a, b) of
          (ofString _, ofString _) \<Rightarrow> True | (ofBool _, ofBool _) \<Rightarrow> True
        | (ofName _, ofName _) \<Rightarrow> True | (ofNat _, ofNat _) \<Rightarrow> True
        | (ofInt _, ofInt _) \<Rightarrow> True | _ \<Rightarrow> False),
      insertCore = (\<lambda>opts k v. opts @ [(k, v)]),
      stringToMessageData = (\<lambda>s. ofFormat (Format_text s)),
      message_end = ofFormat (Format_text [])\<rparr>"

definition toy_dictionaries :: "options dictionaries" where
  "toy_dictionaries =
     \<lparr>getOptionsM = (\<lambda>s. (Inr s, s)),
      getRefM = (\<lambda>s. (Inr Syntax_missing, s)),
      addErrorMessageContext = (\<lambda>r msg s. (Inr (r, msg), s))\<rparr>"

definition id_verbose :: Syntax where
  "id_verbose = Syntax_ident None ''verbose'' (Str Anonymous ''verbose'') []"

section \<open>Properties of the declaration pipeline\<close>

text \<open>
  C3. For every declaration, \<open>addDecl\<close> calls the kernel on the environment currently in
  the state. If the kernel succeeds, the kernel's new environment is installed in the
  state (nothing else of the state changes) and the action succeeds; if the kernel fails,
  the state is left as it was and the kernel's exception is returned as an exception
  value.
\<close>

theorem addDecl_commit_or_untouched:
  "(add_decl (env st) decl = Inr e' \<longrightarrow>
      addDecl add_decl decl ctx st = (Inr (), st\<lparr>env := e'\<rparr>)) \<and>
   (add_decl (env st) decl = Inl kex \<longrightarrow>
      addDecl add_decl decl ctx st = (Inl (KernelFailure kex (ctx_options ctx)), st))"
  by (simp add: addDecl_def getEnv_def setEnv_def getOptions_def
      io_ref_get_def io_ref_take_def io_ref_set_def)

theorem addDecl_commit_or_untouched_witness:
  "toy_add_decl (env st0) 7 = Inr [7] \<and>
   (addDecl toy_add_decl 7 ctx3 st0 ::
      ((unit, string) Exception + unit) \<times> nat list State) = (Inr (), st0\<lparr>env := [7]\<rparr>) \<and>
   toy_add_decl (env (st0\<lparr>env := [7]\<rparr>)) 7 = Inl ''already declared'' \<and>
   (addDecl toy_add_decl 7 ctx3 (st0\<lparr>env := [7]\<rparr>) ::
      ((unit, string) Exception + unit) \<times> nat list State) =
     (Inl (KernelFailure ''already declared'' []), st0\<lparr>env := [7]\<rparr>)"
  using addDecl_commit_or_untouched [of toy_add_decl st0 7 "[7]" ctx3 "''already declared''"]
        addDecl_commit_or_untouched [of toy_add_decl "st0\<lparr>env := [7]\<rparr>" 7 "[7]" ctx3
          "''already declared''"]
  by (simp add: toy_add_decl_def st0_def ctx3_def)

text \<open>
  C1. For every declaration that the kernel accepts (returning the environment \<open>e'\<close>)
  and on which the compiler backend, called on \<open>e'\<close> and the context's options, fails,
  \<open>addAndCompile\<close> returns the compiler's exception, and the state afterwards holds
  \<open>e'\<close>, the environment with the declaration: what \<open>getEnv\<close> then reads is \<open>e'\<close>.
  The commit of \<open>addDecl\<close> is kept and nothing is rolled back.
\<close>

theorem addAndCompile_no_rollback:
  assumes "add_decl (env st) decl = Inr e'"
    and "compile_decl e' (ctx_options ctx) decl = Inl kex"
  shows "addAndCompile add_decl compile_decl decl ctx st =
           (Inl (KernelFailure kex (ctx_options ctx)), st\<lparr>env := e'\<rparr>) \<and>
         fst (getEnv ctx (snd (addAndCompile add_decl compile_decl decl ctx st))) = Inr e'"
proof -
  have add: "addDecl add_decl decl ctx st = (Inr (), st\<lparr>env := e'\<rparr>)"
    using assms(1)
    by (simp add: addDecl_def getEnv_def setEnv_def io_ref_get_def io_ref_take_def
        io_ref_set_def)
  have comp: "compileDecl compile_decl decl ctx (st\<lparr>env := e'\<rparr>) =
      (Inl (KernelFailure kex (ctx_options ctx)), st\<lparr>env := e'\<rparr>)"
    using assms(2)
    by (simp add: compileDecl_def getEnv_def getOptions_def io_ref_get_def)
  have run: "addAndCompile add_decl compile_decl decl ctx st =
      (Inl (KernelFailure kex (ctx_options ctx)), st\<lparr>env := e'\<rparr>)"
    by (simp add: addAndCompile_def add comp)
  show ?thesis
    by (simp add: run getEnv_def io_ref_get_def)
qed

theorem addAndCompile_no_rollback_witness:
  "toy_add_decl (env st0) 7 = Inr [7] \<and>
   toy_compile_decl [7] (ctx_options ctx3) 7 = Inl ''no code generated'' \<and>
   (addAndCompile toy_add_decl toy_compile_decl 7 ctx3 st0 ::
      ((unit, string) Exception + unit) \<times> nat list State) =
     (Inl (KernelFailure ''no code generated'' []), st0\<lparr>env := [7]\<rparr>) \<and>
   (fst (getEnv ctx3 (snd (addAndCompile toy_add_decl toy_compile_decl 7 ctx3 st0 ::
      ((unit, string) Exception + unit) \<times> nat list State))) ::
      (unit, string) Exception + nat list) = Inr [7]"
proof -
  have a: "toy_add_decl (env st0) 7 = Inr [7]"
    by (simp add: toy_add_decl_def st0_def)
  have c: "toy_compile_decl [7] (ctx_options ctx3) 7 = Inl ''no code generated''"
    by (simp add: toy_compile_decl_def)
  show ?thesis
    using a c
      addAndCompile_no_rollback [where add_decl = toy_add_decl and st = st0 and decl = 7
        and e' = "[7]" and compile_decl = toy_compile_decl and ctx = ctx3
        and kex = "''no code generated''", OF a c]
    by (simp add: ctx3_def)
qed

section \<open>Properties of the exception sum\<close>

text \<open>
  C4, as the code has it. The exception of tag 1 carries the kernel's exception together
  with the options of the context, not an environment: every such exception built by
  \<open>addDecl\<close> holds the kernel's exception and the context's options, and \<open>toMessageData\<close>
  renders it by handing the kernel's formatter that exception and those options. The
  exception of tag 0 is rendered as the text of the native error, and the exception of
  tag 2 as its message, unchanged.
\<close>

theorem kernelFailure_carries_options:
  "(add_decl (env st) decl = Inl kex \<longrightarrow>
      (fst (addDecl add_decl decl ctx st) :: ('ioe, 'kex) Exception + unit) =
        Inl (KernelFailure kex (ctx_options ctx))) \<and>
   toMessageData (io_str :: 'ioe \<Rightarrow> string) k_fmt (KernelFailure kex opts) = k_fmt kex opts \<and>
   toMessageData io_str k_fmt (IoFailure e) = ofFormat (Format_text (io_str e)) \<and>
   toMessageData io_str k_fmt (ElaborationFailure r msg) = msg"
  by (simp add: addDecl_def getEnv_def getOptions_def io_ref_get_def toMessageData_def)

theorem kernelFailure_carries_options_witness:
  "toy_reject (env st0) 7 = Inl ''rejected'' \<and>
   (fst (addDecl toy_reject 7 (ctx3\<lparr>ctx_options := pp_opts\<rparr>) st0) ::
      (unit, string) Exception + unit) = Inl (KernelFailure ''rejected'' pp_opts) \<and>
   toMessageData (\<lambda>u::unit. ''io'') toy_kernel_toMessageData
      (KernelFailure ''rejected'' pp_opts) =
     compose (ofFormat (Format_text ''rejected'')) (ofFormat (Format_text ''.''))"
  using kernelFailure_carries_options [of toy_reject st0 7 "''rejected''"
      "ctx3\<lparr>ctx_options := pp_opts\<rparr>" "\<lambda>u::unit. ''io''"
      toy_kernel_toMessageData pp_opts "()" Syntax_missing "ofSyntax Syntax_missing"]
  by (simp add: toy_reject_def toy_kernel_toMessageData_def pp_opts_def)

text \<open>
  C4 as the claim states it fails: a kernel failure built by \<open>addDecl\<close> does not hold the
  environment the failed check ran against. Checked against two different environments
  under the same options, the same rejected declaration gives one and the same exception
  value; and against one environment under two different option maps it gives two
  different exception values, which the formatter renders differently.
\<close>

theorem kernelFailure_holds_environment_counterexample:
  "env (st0\<lparr>env := [1]\<rparr>) \<noteq> env (st0\<lparr>env := [2]\<rparr>) \<and>
   (fst (addDecl toy_reject 7 ctx3 (st0\<lparr>env := [1]\<rparr>)) :: (unit, string) Exception + unit) =
     fst (addDecl toy_reject 7 ctx3 (st0\<lparr>env := [2]\<rparr>)) \<and>
   (fst (addDecl toy_reject 7 ctx3 (st0\<lparr>env := [1]\<rparr>)) :: (unit, string) Exception + unit) =
     Inl (KernelFailure ''rejected'' []) \<and>
   (fst (addDecl toy_reject 7 (ctx3\<lparr>ctx_options := pp_opts\<rparr>) (st0\<lparr>env := [1]\<rparr>)) ::
      (unit, string) Exception + unit) = Inl (KernelFailure ''rejected'' pp_opts) \<and>
   toMessageData (\<lambda>u::unit. ''io'') toy_kernel_toMessageData (KernelFailure ''rejected'' []) \<noteq>
     toMessageData (\<lambda>u::unit. ''io'') toy_kernel_toMessageData
       (KernelFailure ''rejected'' pp_opts)"
  by (simp add: addDecl_def getEnv_def getOptions_def io_ref_get_def toMessageData_def
      toy_reject_def toy_kernel_toMessageData_def st0_def ctx3_def pp_opts_def)

section \<open>Properties of the recursion fence\<close>

text \<open>
  C2. For every action \<open>x\<close>: when the current depth equals the maximal depth,
  \<open>withIncRecDepth x\<close> returns the "max recursion depth" exception of tag 2 and the state
  as it was, whatever \<open>x\<close> is (so \<open>x\<close> is not run); when they differ, it is \<open>x\<close> run
  under the context with the current depth incremented by one. In particular, from depth
  0 with maximal depth 3, four nested calls fail at the fourth, whose body leaves no mark
  while the three bodies around it have run, and three nested calls run all their bodies.
\<close>

theorem withIncRecDepth_fence:
  "(currRecDepth ctx = maxRecDepth ctx \<longrightarrow>
      withIncRecDepth x ctx st = (Inl (ElaborationFailure (ctx_ref ctx) checkRecDepth_msg), st)) \<and>
   (currRecDepth ctx \<noteq> maxRecDepth ctx \<longrightarrow>
      withIncRecDepth x ctx st = x (ctx\<lparr>currRecDepth := currRecDepth ctx + 1\<rparr>) st) \<and>
   nested4 ctx3 st0 =
     (Inl (ElaborationFailure Syntax_missing checkRecDepth_msg), st0\<lparr>env := [1, 2, 3]\<rparr>) \<and>
   nested3 ctx3 st0 = (Inr (), st0\<lparr>env := [1, 2, 3]\<rparr>)"
proof -
  have fence: "\<And>(y :: (unit, string, nat list, unit) CoreM) c s.
      withIncRecDepth y c s =
        (if currRecDepth c = maxRecDepth c
         then (Inl (ElaborationFailure (ctx_ref c) checkRecDepth_msg), s)
         else y (c\<lparr>currRecDepth := currRecDepth c + 1\<rparr>) s)"
    by (simp add: withIncRecDepth_def checkRecDepth_def throwError_def incCurrRecDepth_def)
  have m: "\<And>i c s. mark i c s = (Inr (), s\<lparr>env := env s @ [i]\<rparr>)"
    by (simp add: mark_def modifyEnv_def io_ref_take_def io_ref_set_def)
  have n4: "nested4 ctx3 st0 =
      (Inl (ElaborationFailure Syntax_missing checkRecDepth_msg), st0\<lparr>env := [1, 2, 3]\<rparr>)"
    by (simp add: nested4_def fence andThen_def m ctx3_def st0_def)
  have n3: "nested3 ctx3 st0 = (Inr (), st0\<lparr>env := [1, 2, 3]\<rparr>)"
    by (simp add: nested3_def fence andThen_def m ctx3_def st0_def)
  show ?thesis
    by (simp add: n4 n3)
      (simp add: withIncRecDepth_def checkRecDepth_def throwError_def incCurrRecDepth_def)
qed

theorem withIncRecDepth_fence_witness:
  "currRecDepth (ctx3\<lparr>currRecDepth := 3\<rparr>) = maxRecDepth (ctx3\<lparr>currRecDepth := 3\<rparr>) \<and>
   withIncRecDepth (mark 4) (ctx3\<lparr>currRecDepth := 3\<rparr>) st0 =
     (Inl (ElaborationFailure Syntax_missing checkRecDepth_msg), st0) \<and>
   currRecDepth ctx3 \<noteq> maxRecDepth ctx3 \<and>
   withIncRecDepth (mark 4) ctx3 st0 = (Inr (), st0\<lparr>env := [4]\<rparr>)"
  using withIncRecDepth_fence [of "ctx3\<lparr>currRecDepth := 3\<rparr>" "mark 4" st0]
        withIncRecDepth_fence [of ctx3 "mark 4" st0]
  by (simp add: ctx3_def st0_def mark_def modifyEnv_def io_ref_take_def io_ref_set_def)

section \<open>Properties of the fresh-name generator\<close>

lemma mkFreshId_eq:
  "mkFreshId ctx st =
     (Inr (Num (namePrefix (ngen st)) (idx (ngen st))),
      st\<lparr>ngen := (ngen st)\<lparr>idx := idx (ngen st) + 1\<rparr>\<rparr>)"
  by (simp add: mkFreshId_def io_ref_get_def io_ref_take_def io_ref_set_def Let_def)

lemma fresh_shift:
  "map (\<lambda>i. Num p (Suc (n + i))) [0..<k] = map (\<lambda>i. Num p (n + i)) [Suc 0..<Suc k]"
  by (simp add: map_Suc_upt [symmetric] del: upt_Suc)

lemma mkFreshIds_eq:
  "mkFreshIds k ctx st =
     (Inr (map (\<lambda>i. Num (namePrefix (ngen st)) (idx (ngen st) + i)) [0..<k]),
      st\<lparr>ngen := (ngen st)\<lparr>idx := idx (ngen st) + k\<rparr>\<rparr>)"
proof (induction k arbitrary: st)
  case 0
  show ?case by simp
next
  case (Suc k)
  show ?case
    by (simp add: mkFreshId_eq Suc.IH fresh_shift upt_conv_Cons del: upt_Suc)
qed

text \<open>The other operations on the state leave the generator alone, so the identifiers of
  a run are those of its calls of \<open>mkFreshId\<close> alone.\<close>

lemma run_ops_eq:
  "fst (run_ops ops ctx st :: (('ioe, 'kex) Exception + name list) \<times> 'env State) =
     Inr (map (\<lambda>i. Num (namePrefix (ngen st)) (idx (ngen st) + i)) [0..<count_fresh ops])"
proof (induction ops arbitrary: st)
  case Nil
  show ?case by simp
next
  case (Cons x ops)
  show ?case
  proof (cases x)
    case FreshId
    let ?st' = "st\<lparr>ngen := (ngen st)\<lparr>idx := idx (ngen st) + 1\<rparr>\<rparr>"
    obtain r s' where
      rs: "(run_ops ops ctx ?st' :: (('ioe, 'kex) Exception + name list) \<times> 'env State) =
        (r, s')"
      by (cases "run_ops ops ctx ?st' :: (('ioe, 'kex) Exception + name list) \<times> 'env State")
    have "r = Inr (map (\<lambda>i. Num (namePrefix (ngen st)) (Suc (idx (ngen st) + i)))
        [0..<count_fresh ops])"
      using Cons.IH [of ?st'] rs by simp
    then show ?thesis
      using FreshId rs
      by (simp add: mkFreshId_eq fresh_shift upt_conv_Cons del: upt_Suc)
  next
    case (SetEnv e)
    then show ?thesis
      by (simp add: setEnv_def io_ref_take_def io_ref_set_def Cons.IH)
  next
    case (ModifyEnv f)
    then show ?thesis
      by (simp add: modifyEnv_def io_ref_take_def io_ref_set_def Cons.IH)
  next
    case (ModifyTraceState f)
    then show ?thesis
      by (simp add: modifyTraceState_def io_ref_take_def io_ref_set_def Cons.IH)
  qed
qed

text \<open>
  C7. For every \<open>k\<close>, \<open>k\<close> calls of \<open>mkFreshId\<close> in a row all succeed and return \<open>k\<close>
  pairwise distinct identifiers: the \<open>i\<close>-th is the numeral name built from the
  generator's prefix and its index advanced \<open>i\<close> times, and the generator is left with its
  index advanced \<open>k\<close> times. The same holds when the calls are interleaved in any way
  with the other operations on the state: a run with \<open>k\<close> calls of \<open>mkFreshId\<close>
  succeeds and collects \<open>k\<close> pairwise distinct identifiers.
\<close>

theorem mkFreshId_distinct:
  "(\<exists>ns. fst (mkFreshIds k ctx st) = Inr ns \<and> length ns = k \<and> distinct ns \<and>
      ns = map (\<lambda>i. Num (namePrefix (ngen st)) (idx (ngen st) + i)) [0..<k] \<and>
      idx (ngen (snd (mkFreshIds k ctx st))) = idx (ngen st) + k) \<and>
   (\<exists>ms. fst (run_ops ops ctx st) = Inr ms \<and> length ms = count_fresh ops \<and> distinct ms)"
  by (simp add: mkFreshIds_eq run_ops_eq distinct_map inj_on_def)

text \<open>
  C9. \<open>mkFreshId\<close> never fails, and it changes the name generator only: the environment
  and the trace state of the state are what they were before the call.
\<close>

theorem mkFreshId_frame:
  "(\<exists>n. fst (mkFreshId ctx st) = Inr n) \<and>
   env (snd (mkFreshId ctx st)) = env st \<and>
   traceState (snd (mkFreshId ctx st)) = traceState st \<and>
   snd (mkFreshId ctx st) = st\<lparr>ngen := ngen (snd (mkFreshId ctx st))\<rparr>"
  by (simp add: mkFreshId_def io_ref_get_def io_ref_take_def io_ref_set_def Let_def)


section \<open>Properties of the trace registry\<close>

lemma is_trace_class_set_core_iff:
  "is_trace_class_set_core cs n \<longleftrightarrow> (\<exists>c\<in>set cs. is_prefix_of c n)"
  by (induction cs) auto

lemma on_prefix_walk_atomic: "is_atomic it \<Longrightarrow> on_prefix_walk p it \<longleftrightarrow> p = it"
  by (cases it) (auto simp: on_prefix_walk_def is_atomic_def is_anonymous_def)

lemma on_prefix_walk_step:
  "\<not> is_atomic it \<Longrightarrow> on_prefix_walk p it \<longleftrightarrow> (p = it \<or> on_prefix_walk p (get_prefix it))"
  by (cases it) (auto simp: on_prefix_walk_def is_atomic_def is_anonymous_def)

lemma on_prefix_walk_refl: "on_prefix_walk it it"
  by (cases it) (simp_all add: on_prefix_walk_def)

text \<open>The loop finds an alias exactly if some name on the walk from \<open>it\<close> has one that
  is set.\<close>

lemma is_trace_class_set_loop_iff:
  "is_trace_class_set_loop aliases cs it \<longleftrightarrow>
     (\<exists>p s. on_prefix_walk p it \<and> aliases p = Some s \<and>
        (\<exists>a\<in>s. is_trace_class_set_core cs a))"
proof (induction aliases cs it rule: is_trace_class_set_loop.induct)
  case (1 aliases cs it)
  let ?hit = "\<lambda>p. \<exists>s. aliases p = Some s \<and> (\<exists>a\<in>s. is_trace_class_set_core cs a)"
  have here: "(case aliases it of Some s \<Rightarrow> (\<exists>alias\<in>s. is_trace_class_set_core cs alias)
      | None \<Rightarrow> False) \<longleftrightarrow> ?hit it"
    by (cases "aliases it") simp_all
  have unfold: "is_trace_class_set_loop aliases cs it =
      (if ?hit it then True else if is_atomic it then False
       else is_trace_class_set_loop aliases cs (get_prefix it))"
    by (subst is_trace_class_set_loop.simps) (simp only: here)
  show ?case
  proof (cases "?hit it")
    case True
    then have "is_trace_class_set_loop aliases cs it"
      by (simp only: unfold if_True)
    then show ?thesis
      using True on_prefix_walk_refl [of it] by blast
  next
    case nohit: False
    show ?thesis
    proof (cases "is_atomic it")
      case True
      then have "\<not> is_trace_class_set_loop aliases cs it"
        using nohit by (simp only: unfold if_False if_True not_False_eq_True)
      then show ?thesis
        using nohit True by (simp add: on_prefix_walk_atomic)
    next
      case False
      have "is_trace_class_set_loop aliases cs it
          \<longleftrightarrow> is_trace_class_set_loop aliases cs (get_prefix it)"
        using nohit False by (simp only: unfold if_False)
      also have "\<dots> \<longleftrightarrow> (\<exists>p. on_prefix_walk p (get_prefix it) \<and> ?hit p)"
        using "1.IH" nohit here False by blast
      also have "\<dots> \<longleftrightarrow> (\<exists>p. on_prefix_walk p it \<and> ?hit p)"
        using nohit by (simp only: on_prefix_walk_step [OF False]) blast
      finally show ?thesis by blast
    qed
  qed
qed

lemma is_trace_class_set_iff:
  "is_trace_class_set aliases cs n \<longleftrightarrow> class_matched aliases cs n"
  unfolding is_trace_class_set_def class_matched_def is_trace_class_set_loop_iff
    is_trace_class_set_core_iff
  by auto

lemma alias_example_enabled:
  "is_trace_class_enabled (register_trace_class_alias nAB nD Map.empty)
     (enable_trace_class nD tls0) nABC"
  by (simp add: is_trace_class_enabled_def is_trace_enabled_def is_trace_class_set_def
      is_trace_class_set_loop.simps register_trace_class_alias_def enable_trace_class_def
      update_class_def tls0_def nA_def nAB_def nABC_def nD_def is_atomic_def
      is_anonymous_def)

text \<open>
  C5. For every class name \<open>n\<close>, \<open>is_trace_class_enabled\<close> returns true if and only if
  the enabled list is not empty, \<open>n\<close> is not matched in the disabled list, and \<open>n\<close> is
  matched in the enabled list, where matching is \<open>class_matched\<close>: by prefix, or through
  a registered alias of a name on the walk along the prefix chain of \<open>n\<close>. A match in
  the disabled list wins over a match in the enabled list. In particular, with the alias
  \<open>D\<close> registered for the class \<open>A.B\<close> and \<open>D\<close> enabled, the class \<open>A.B.C\<close> is
  enabled.
\<close>

theorem is_trace_class_enabled_iff:
  "(is_trace_class_enabled aliases st n \<longleftrightarrow>
      enabled_trace_classes st \<noteq> [] \<and>
      \<not> class_matched aliases (disabled_trace_classes st) n \<and>
      class_matched aliases (enabled_trace_classes st) n) \<and>
   is_trace_class_enabled (register_trace_class_alias nAB nD Map.empty)
     (enable_trace_class nD tls0) nABC"
proof (rule conjI)
  show "is_trace_class_enabled aliases st n \<longleftrightarrow>
      enabled_trace_classes st \<noteq> [] \<and>
      \<not> class_matched aliases (disabled_trace_classes st) n \<and>
      class_matched aliases (enabled_trace_classes st) n"
    by (simp add: is_trace_class_enabled_def is_trace_enabled_def is_trace_class_set_iff)
next
  show "is_trace_class_enabled (register_trace_class_alias nAB nD Map.empty)
     (enable_trace_class nD tls0) nABC"
    by (rule alias_example_enabled)
qed

theorem is_trace_class_enabled_iff_witness:
  "is_trace_class_enabled (register_trace_class_alias nAB nD Map.empty)
     (enable_trace_class nD tls0) nABC \<and>
   class_matched (register_trace_class_alias nAB nD Map.empty)
     (enabled_trace_classes (enable_trace_class nD tls0)) nABC \<and>
   \<not> class_matched (register_trace_class_alias nAB nD Map.empty)
     (disabled_trace_classes (enable_trace_class nD tls0)) nABC \<and>
   \<not> is_trace_class_enabled (register_trace_class_alias nAB nD Map.empty)
     (disable_trace_class nA (enable_trace_class nD tls0)) nABC \<and>
   class_matched (register_trace_class_alias nAB nD Map.empty)
     (disabled_trace_classes (disable_trace_class nA (enable_trace_class nD tls0))) nABC"
proof -
  let ?al = "register_trace_class_alias nAB nD Map.empty"
  let ?st = "enable_trace_class nD tls0"
  let ?st' = "disable_trace_class nA ?st"
  note t1 = is_trace_class_enabled_iff [of ?al ?st nABC, THEN conjunct1]
  note t2 = is_trace_class_enabled_iff [of ?al ?st' nABC, THEN conjunct1]
  have on: "is_trace_class_enabled ?al ?st nABC"
    by (simp add: is_trace_class_enabled_def is_trace_enabled_def is_trace_class_set_def
        is_trace_class_set_loop.simps register_trace_class_alias_def enable_trace_class_def
        update_class_def tls0_def nA_def nAB_def nABC_def nD_def is_atomic_def
        is_anonymous_def)
  have off: "\<not> is_trace_class_enabled ?al ?st' nABC"
    by (simp add: is_trace_class_enabled_def is_trace_enabled_def is_trace_class_set_def
        enable_trace_class_def disable_trace_class_def update_class_def tls0_def
        nA_def nAB_def nABC_def nD_def)
  have same: "enabled_trace_classes ?st' = enabled_trace_classes ?st"
    by (simp add: disable_trace_class_def)
  have m1: "enabled_trace_classes ?st \<noteq> [] \<and>
      \<not> class_matched ?al (disabled_trace_classes ?st) nABC \<and>
      class_matched ?al (enabled_trace_classes ?st) nABC"
    using t1 on by blast
  have m2: "class_matched ?al (disabled_trace_classes ?st') nABC"
    using t2 off m1 same by metis
  show ?thesis
    using on off m1 m2 by blast
qed

section \<open>Properties of scoped trace environments\<close>

lemma update_class_prefix: "prefix cs (update_class cs c)"
  by (simp add: update_class_def)

lemma init_key_prefix:
  "prefix (enabled_trace_classes st) (enabled_trace_classes (init_key kvs n st)) \<and>
   prefix (disabled_trace_classes st) (disabled_trace_classes (init_key kvs n st))"
  by (simp add: init_key_def Let_def enable_trace_class_def disable_trace_class_def
      update_class_prefix)

lemma fold_init_key_prefix:
  "prefix (enabled_trace_classes st) (enabled_trace_classes (fold (init_key kvs) ns st)) \<and>
   prefix (disabled_trace_classes st) (disabled_trace_classes (fold (init_key kvs) ns st))"
proof (induction ns arbitrary: st)
  case Nil
  show ?case by simp
next
  case (Cons n ns)
  show ?case
    using init_key_prefix [of st kvs n] Cons.IH [of "init_key kvs n st"]
    by (auto intro: prefix_order.trans)
qed

text \<open>What \<open>init\<close> records in the scope object, and that it only appends to the two
  lists.\<close>

lemma init_prefix:
  assumes "init e opts c st = (sc, st1)"
  shows "prefix (enabled_trace_classes st) (enabled_trace_classes st1)"
    and "prefix (disabled_trace_classes st) (disabled_trace_classes st1)"
    and "m_enable_sz sc = length (enabled_trace_classes st)"
    and "m_disable_sz sc = length (disabled_trace_classes st)"
    and "m_old_env sc = g_env st" and "m_old_opts sc = g_opts st" and "m_old_ctx sc = g_ctx st"
  using assms fold_init_key_prefix [of "st\<lparr>g_env := e, g_ctx := c\<rparr>"]
  by (auto simp: init_def Let_def split: option.splits prod.splits if_splits)

lemma resize_length: "length (resize xs n) = n"
  by (simp add: resize_def)

lemma resize_prefix: "prefix xs ys \<Longrightarrow> resize ys (length xs) = xs"
  by (auto simp: resize_def prefix_def)

lemma init_example:
  "init None (Some (1, opts_trace_AB)) None tlsA =
     (\<lparr>m_enable_sz = 1, m_disable_sz = 0, m_old_env = None, m_old_opts = None,
        m_old_ctx = None\<rparr>,
      tlsA\<lparr>enabled_trace_classes := [nA, nAB], g_opts := Some 1\<rparr>)"
  by (simp add: init_def init_key_def opts_trace_AB_def tlsA_def tls0_def get_bool_def
      enable_trace_class_def update_class_def nA_def nAB_def)

text \<open>
  C6. For every scope (entered by \<open>init\<close> with any pointers, from any state) and every
  body, whatever the body's result \<open>r\<close> is (a value, or a failure that propagates), the
  scope's exit runs on the state the body left: it restores the three pointers bound
  before the scope was entered and brings both lists back to the lengths they had at
  entry; where the body has only appended to the lists, they are exactly the lists of
  before. In particular, with the enabled list \<open>[A]\<close>, a scope whose options enable
  \<open>A.B\<close> leaves the state as it was, with the enabled list \<open>[A]\<close>, both when the body
  returns and when it fails.
\<close>

theorem scope_exit_restores:
  assumes "init e opts c st = (sc, st1)" and "body st1 = (r, st2)"
  shows "scoped e opts c body st = (r, scope_exit sc st2) \<and>
         g_env (scope_exit sc st2) = g_env st \<and>
         g_opts (scope_exit sc st2) = g_opts st \<and>
         g_ctx (scope_exit sc st2) = g_ctx st \<and>
         length (enabled_trace_classes (scope_exit sc st2)) = length (enabled_trace_classes st) \<and>
         length (disabled_trace_classes (scope_exit sc st2)) = length (disabled_trace_classes st) \<and>
         (prefix (enabled_trace_classes st1) (enabled_trace_classes st2) \<longrightarrow>
            enabled_trace_classes (scope_exit sc st2) = enabled_trace_classes st) \<and>
         (prefix (disabled_trace_classes st1) (disabled_trace_classes st2) \<longrightarrow>
            disabled_trace_classes (scope_exit sc st2) = disabled_trace_classes st) \<and>
         scoped None (Some (1, opts_trace_AB)) None body_returns tlsA = (Inr (), tlsA) \<and>
         scoped None (Some (1, opts_trace_AB)) None body_throws tlsA = (Inl ''failure'', tlsA)"
proof -
  note i = init_prefix [OF assms(1)]
  have run: "scoped e opts c body st = (r, scope_exit sc st2)"
    by (simp add: scoped_def assms)
  have en: "enabled_trace_classes (scope_exit sc st2) = enabled_trace_classes st"
    if "prefix (enabled_trace_classes st1) (enabled_trace_classes st2)"
    using resize_prefix [of "enabled_trace_classes st" "enabled_trace_classes st2"]
      prefix_order.trans [OF i(1) that]
    by (simp add: scope_exit_def i(3))
  have dis: "disabled_trace_classes (scope_exit sc st2) = disabled_trace_classes st"
    if "prefix (disabled_trace_classes st1) (disabled_trace_classes st2)"
    using resize_prefix [of "disabled_trace_classes st" "disabled_trace_classes st2"]
      prefix_order.trans [OF i(2) that]
    by (simp add: scope_exit_def i(4))
  have ex1: "scoped None (Some (1, opts_trace_AB)) None body_returns tlsA = (Inr (), tlsA)"
    unfolding scoped_def init_example
    by (simp add: body_returns_def scope_exit_def resize_def tlsA_def tls0_def)
  have ex2: "scoped None (Some (1, opts_trace_AB)) None body_throws tlsA =
      (Inl ''failure'', tlsA)"
    unfolding scoped_def init_example
    by (simp add: body_throws_def scope_exit_def resize_def tlsA_def tls0_def)
  show ?thesis
    using en dis ex1 ex2
    by (simp add: run scope_exit_def resize_length i)
qed

theorem scope_exit_restores_witness:
  "init None (Some (1, opts_trace_AB)) None tlsA =
     (\<lparr>m_enable_sz = 1, m_disable_sz = 0, m_old_env = None, m_old_opts = None,
        m_old_ctx = None\<rparr>,
      tlsA\<lparr>enabled_trace_classes := [nA, nAB], g_opts := Some 1\<rparr>) \<and>
   body_throws (tlsA\<lparr>enabled_trace_classes := [nA, nAB], g_opts := Some 1\<rparr>) =
     (Inl ''failure'', tlsA\<lparr>enabled_trace_classes := [nA, nAB], g_opts := Some 1\<rparr>) \<and>
   enabled_trace_classes (snd (scoped None (Some (1, opts_trace_AB)) None body_throws tlsA)) =
     [nA] \<and>
   g_opts (snd (scoped None (Some (1, opts_trace_AB)) None body_throws tlsA)) = None \<and>
   fst (scoped None (Some (1, opts_trace_AB)) None body_throws tlsA) = Inl ''failure''"
proof -
  have b: "body_throws (tlsA\<lparr>enabled_trace_classes := [nA, nAB], g_opts := Some 1\<rparr>) =
      (Inl ''failure'', tlsA\<lparr>enabled_trace_classes := [nA, nAB], g_opts := Some 1\<rparr>)"
    by (simp add: body_throws_def)
  show ?thesis
    using scope_exit_restores [where body = body_throws, OF init_example b] init_example b
    by (simp add: tlsA_def tls0_def)
qed

section \<open>Properties of hashing and comparison\<close>

lemma strcmp_refl: "strcmp s s = 0"
  by (induction s) simp_all

lemma cmp_limb_refl: "cmp_limb x x = 0"
  by (cases x) (simp_all add: strcmp_refl)

lemma cmp_limbs_refl: "cmp_limbs xs xs = 0"
  by (induction xs) (simp_all add: cmp_limb_refl)

lemma eq_core_limbs: "eq_core a b \<Longrightarrow> limbs a = limbs b"
  by (induction a b rule: eq_core.induct) simp_all

lemma eq_core_cmp_core: "eq_core a b \<Longrightarrow> cmp_core a b = 0"
  by (simp add: cmp_core_def eq_core_limbs cmp_limbs_refl)

text \<open>
  C8. For all names \<open>a\<close> and \<open>b\<close> held in one memory (equal raw pointers point to the
  same object): if \<open>a == b\<close> then the hash codes of \<open>a\<close> and \<open>b\<close> are equal, and if
  \<open>quick_cmp\<close> returns 0 then \<open>cmp\<close> returns 0 as well.
\<close>

theorem hash_eq_and_quick_cmp_consistent:
  assumes "raw a = raw b \<longrightarrow> obj a = obj b"
  shows "(name_eq a b \<longrightarrow> name_hash a = name_hash b) \<and>
         (quick_cmp a b = 0 \<longrightarrow> cmp a b = 0)"
proof (rule conjI; rule impI)
  assume "name_eq a b"
  then show "name_hash a = name_hash b"
    using assms by (auto simp: name_eq_def name_hash_def split: if_splits)
next
  assume q: "quick_cmp a b = 0"
  show "cmp a b = 0"
  proof (cases "raw a = raw b")
    case True
    then have "obj a = obj b" using assms by simp
    then show ?thesis by (simp add: cmp_def cmp_core_def cmp_limbs_refl)
  next
    case False
    then have "eq_core (obj a) (obj b) \<or> cmp a b = 0"
      using q by (auto simp: quick_cmp_def name_eq_def Let_def split: if_splits)
    then show ?thesis
      by (auto simp: cmp_def eq_core_cmp_core)
  qed
qed

theorem hash_eq_and_quick_cmp_consistent_witness:
  "raw ref1 \<noteq> raw ref2 \<and> name_eq ref1 ref2 \<and> name_hash ref1 = name_hash ref2 \<and>
   quick_cmp ref1 ref2 = 0 \<and> cmp ref1 ref2 = 0 \<and>
   \<not> name_eq ref1 ref3 \<and> quick_cmp ref1 ref3 = - 1"
proof -
  have wf: "raw ref1 = raw ref2 \<longrightarrow> obj ref1 = obj ref2"
    by (simp add: ref1_def ref2_def)
  have e: "name_eq ref1 ref2"
    by (simp add: name_eq_def is_scalar_def name_hash_def ref1_def ref2_def)
  have q: "quick_cmp ref1 ref2 = 0"
    by (simp add: quick_cmp_def name_eq_def is_scalar_def name_hash_def ref1_def ref2_def)
  have other: "\<not> name_eq ref1 ref3 \<and> quick_cmp ref1 ref3 = - 1"
    by (simp add: quick_cmp_def name_eq_def is_scalar_def name_hash_def ref1_def ref3_def)
  show ?thesis
    using hash_eq_and_quick_cmp_consistent [OF wf] e q other
    by (simp add: ref1_def ref2_def)
qed

section \<open>Properties of the elaboration of \<^verbatim>\<open>set_option\<close>\<close>

lemma throwErrorM_fails: "\<exists>ex. fst (throwErrorM D msg s) = Inl ex"
  by (auto simp: throwErrorM_def bindM_def throwM_def split: prod.splits sum.splits)

text \<open>
  C10. \<open>elabSetOption\<close> hands exactly four shapes of value to \<open>setOption\<close>: a string
  literal (as a string data value), a numeric literal (as a number data value), and the
  atoms \<open>true\<close> and \<open>false\<close> (as the boolean data values true and false). For every
  other value it is \<open>throwErrorM\<close> on the message that begins with the message of
  \<open>"unexpected set_option value "\<close>, followed by the value's syntax: the result is an
  exception in every state, no option map is read or built, and where reading the
  reference and adding the context leave the state as it is, the state is unchanged and
  the exception is the one of tag 0 with the message so built.
\<close>

theorem elabSetOption_shapes:
  "(isStrLit X val = Some str \<longrightarrow>
      elabSetOption X D stx val =
        setOption X D (eraseMacroScopes X (getId X stx)) (ofString str)) \<and>
   (isStrLit X val = None \<and> isNatLit X val = Some num \<longrightarrow>
      elabSetOption X D stx val =
        setOption X D (eraseMacroScopes X (getId X stx)) (ofNat num)) \<and>
   (isStrLit X val = None \<and> isNatLit X val = None \<and> val = Syntax_atom info ''true'' \<longrightarrow>
      elabSetOption X D stx val =
        setOption X D (eraseMacroScopes X (getId X stx)) (ofBool True)) \<and>
   (isStrLit X val = None \<and> isNatLit X val = None \<and> val = Syntax_atom info ''false'' \<longrightarrow>
      elabSetOption X D stx val =
        setOption X D (eraseMacroScopes X (getId X stx)) (ofBool False)) \<and>
   (isStrLit X val = None \<and> isNatLit X val = None \<and>
    (\<forall>i. val \<noteq> Syntax_atom i ''true'') \<and> (\<forall>i. val \<noteq> Syntax_atom i ''false'') \<longrightarrow>
      elabSetOption X D stx val =
        throwErrorM D
          (compose (compose (stringToMessageData X ''unexpected set_option value '')
             (ofSyntax val)) (message_end X)) \<and>
      (\<exists>ex. fst (elabSetOption X D stx val s) = Inl ex) \<and>
      (getRefM D s = (Inr r, s) \<and>
       addErrorMessageContext D r
         (compose (compose (stringToMessageData X ''unexpected set_option value '')
            (ofSyntax val)) (message_end X)) s = (Inr (r', msg'), s) \<longrightarrow>
       elabSetOption X D stx val s = (Inl (Exception_error r' msg'), s)))"
proof -
  let ?n = "eraseMacroScopes X (getId X stx)"
  let ?msg = "compose (compose (stringToMessageData X ''unexpected set_option value '')
      (ofSyntax val)) (message_end X)"
  have c1: "isStrLit X val = Some str \<longrightarrow>
      elabSetOption X D stx val = setOption X D ?n (ofString str)"
    by (simp add: elabSetOption_def)
  have c2: "isStrLit X val = None \<and> isNatLit X val = Some num \<longrightarrow>
      elabSetOption X D stx val = setOption X D ?n (ofNat num)"
    by (simp add: elabSetOption_def)
  have c3: "isStrLit X val = None \<and> isNatLit X val = None \<and> val = Syntax_atom info ''true'' \<longrightarrow>
      elabSetOption X D stx val = setOption X D ?n (ofBool True)"
    by (auto simp: elabSetOption_def instReprBool_closed_3_def mkAnnotation_closed_1_def)
  have c4: "isStrLit X val = None \<and> isNatLit X val = None \<and> val = Syntax_atom info ''false'' \<longrightarrow>
      elabSetOption X D stx val = setOption X D ?n (ofBool False)"
    by (auto simp: elabSetOption_def instReprBool_closed_3_def instReprBool_closed_1_def
        PPExt_closed_3_def)
  have other: "elabSetOption X D stx val = throwErrorM D ?msg"
    if "isStrLit X val = None" "isNatLit X val = None"
      "\<forall>i. val \<noteq> Syntax_atom i ''true''" "\<forall>i. val \<noteq> Syntax_atom i ''false''"
    using that
    by (cases val)
      (simp_all add: elabSetOption_def unexpected_value_msg_def instReprBool_closed_3_def
        instReprBool_closed_1_def)
  have run: "throwErrorM D ?msg s = (Inl (Exception_error r' msg'), s)"
    if "getRefM D s = (Inr r, s)" "addErrorMessageContext D r ?msg s = (Inr (r', msg'), s)"
    using that by (simp add: throwErrorM_def bindM_def throwM_def)
  have c5: "isStrLit X val = None \<and> isNatLit X val = None \<and>
      (\<forall>i. val \<noteq> Syntax_atom i ''true'') \<and> (\<forall>i. val \<noteq> Syntax_atom i ''false'') \<longrightarrow>
      elabSetOption X D stx val = throwErrorM D ?msg \<and>
      (\<exists>ex. fst (elabSetOption X D stx val s) = Inl ex) \<and>
      (getRefM D s = (Inr r, s) \<and> addErrorMessageContext D r ?msg s = (Inr (r', msg'), s) \<longrightarrow>
       elabSetOption X D stx val s = (Inl (Exception_error r' msg'), s))"
  proof (intro impI, elim conjE)
    assume h: "isStrLit X val = None" "isNatLit X val = None"
      "\<forall>i. val \<noteq> Syntax_atom i ''true''" "\<forall>i. val \<noteq> Syntax_atom i ''false''"
    have eq: "elabSetOption X D stx val = throwErrorM D ?msg"
      by (rule other [OF h])
    show "elabSetOption X D stx val = throwErrorM D ?msg \<and>
      (\<exists>ex. fst (elabSetOption X D stx val s) = Inl ex) \<and>
      (getRefM D s = (Inr r, s) \<and> addErrorMessageContext D r ?msg s = (Inr (r', msg'), s) \<longrightarrow>
       elabSetOption X D stx val s = (Inl (Exception_error r' msg'), s))"
      unfolding eq using throwErrorM_fails [of D ?msg s] run by blast
  qed
  from c1 c2 c3 c4 c5 show ?thesis
    by (intro conjI) assumption+
qed

theorem elabSetOption_shapes_witness:
  "elabSetOption toy_collaborators toy_dictionaries id_verbose
     (Syntax_node (Str Anonymous ''strLit'') [Syntax_atom None ''x'']) [] =
     setOption toy_collaborators toy_dictionaries (Str Anonymous ''verbose'') (ofString ''x'') [] \<and>
   elabSetOption toy_collaborators toy_dictionaries id_verbose
     (Syntax_node (Str Anonymous ''numLit'') [Syntax_atom None ''42'']) [] =
     setOption toy_collaborators toy_dictionaries (Str Anonymous ''verbose'') (ofNat 2) [] \<and>
   elabSetOption toy_collaborators toy_dictionaries id_verbose (Syntax_atom None ''true'') [] =
     (Inr [(Str Anonymous ''verbose'', ofBool True)], []) \<and>
   elabSetOption toy_collaborators toy_dictionaries id_verbose (Syntax_atom None ''false'') [] =
     (Inr [(Str Anonymous ''verbose'', ofBool False)], []) \<and>
   elabSetOption toy_collaborators toy_dictionaries id_verbose (Syntax_atom None ''maybe'') [] =
     (Inl (Exception_error Syntax_missing
        (compose (compose (ofFormat (Format_text ''unexpected set_option value ''))
           (ofSyntax (Syntax_atom None ''maybe''))) (ofFormat (Format_text [])))), [])"
proof -
  let ?X = toy_collaborators
  let ?D = toy_dictionaries
  have s: "setOption ?X ?D (Str Anonymous ''verbose'') (ofBool b) [] =
      (Inr [(Str Anonymous ''verbose'', ofBool b)], [])" for b
    by (simp add: setOption_def bindM_def pureM_def liftIO_def toy_collaborators_def
        toy_dictionaries_def)
  note t = elabSetOption_shapes [where X = ?X and D = ?D and stx = id_verbose and s = "[]"
      and r = Syntax_missing and r' = Syntax_missing and info = None]
  have a: "elabSetOption ?X ?D id_verbose
      (Syntax_node (Str Anonymous ''strLit'') [Syntax_atom None ''x'']) [] =
      setOption ?X ?D (Str Anonymous ''verbose'') (ofString ''x'') []"
    using t [where val = "Syntax_node (Str Anonymous ''strLit'') [Syntax_atom None ''x'']"
        and str = "''x''"]
    by (simp add: toy_collaborators_def id_verbose_def)
  have b: "elabSetOption ?X ?D id_verbose
      (Syntax_node (Str Anonymous ''numLit'') [Syntax_atom None ''42'']) [] =
      setOption ?X ?D (Str Anonymous ''verbose'') (ofNat 2) []"
    using t [where val = "Syntax_node (Str Anonymous ''numLit'') [Syntax_atom None ''42'']"
        and num = 2]
    by (simp add: toy_collaborators_def id_verbose_def)
  have c: "elabSetOption ?X ?D id_verbose (Syntax_atom None ''true'') [] =
      (Inr [(Str Anonymous ''verbose'', ofBool True)], [])"
    using t [where val = "Syntax_atom None ''true''"] s [of True]
    by (simp add: toy_collaborators_def id_verbose_def)
  have d: "elabSetOption ?X ?D id_verbose (Syntax_atom None ''false'') [] =
      (Inr [(Str Anonymous ''verbose'', ofBool False)], [])"
    using t [where val = "Syntax_atom None ''false''"] s [of False]
    by (simp add: toy_collaborators_def id_verbose_def)
  let ?v = "Syntax_atom None ''maybe''"
  let ?M = "compose (compose (ofFormat (Format_text ''unexpected set_option value ''))
      (ofSyntax ?v)) (ofFormat (Format_text []))"
  have h: "isStrLit ?X ?v = None \<and> isNatLit ?X ?v = None \<and>
      (\<forall>i. ?v \<noteq> Syntax_atom i ''true'') \<and> (\<forall>i. ?v \<noteq> Syntax_atom i ''false'')"
    by (simp add: toy_collaborators_def)
  note t5 = t [where val = ?v and msg' = ?M, THEN conjunct2, THEN conjunct2, THEN conjunct2,
      THEN conjunct2, THEN mp, OF h, THEN conjunct2, THEN conjunct2]
  have g: "getRefM ?D [] = (Inr Syntax_missing, []) \<and>
      addErrorMessageContext ?D Syntax_missing
        (compose (compose (stringToMessageData ?X ''unexpected set_option value '')
           (ofSyntax ?v)) (message_end ?X)) [] = (Inr (Syntax_missing, ?M), [])"
    by (simp add: toy_dictionaries_def toy_collaborators_def)
  have e: "elabSetOption ?X ?D id_verbose ?v [] = (Inl (Exception_error Syntax_missing ?M), [])"
    using t5 g by blast
  show ?thesis
    using a b c d e by blast
qed
end
